theory Spec2Isabelle
  imports Main "HOL-Library.AList" "HOL-Library.Sublist"
begin

section \<open>Python strings\<close>

text \<open>
  A Python \<open>str\<close> is a list of characters, one per code point. The model covers the
  code points 0 to 255 (\<open>Ch c\<close>) and the two characters beyond them that the program
  itself writes or tests for: the em dash U+2014 and the bullet U+2022. The character
  classes below are Python's Unicode classes on that range.
\<close>

datatype pychar = Ch char | EmDash | Bullet

type_synonym pystr = "pychar list"

abbreviation str :: "string \<Rightarrow> pystr" where
  "str s \<equiv> map Ch s"

fun code_point :: "pychar \<Rightarrow> nat" where
  "code_point (Ch c) = of_char c"
| "code_point EmDash = 8212"
| "code_point Bullet = 8226"

definition is_space :: "pychar \<Rightarrow> bool" where
  \<comment> \<open>\<open>str.isspace\<close>, the class \<open>\s\<close>, and what \<open>str.strip()\<close> removes\<close>
  "is_space c =
     (let n = code_point c
      in (9 \<le> n \<and> n \<le> 13) \<or> (28 \<le> n \<and> n \<le> 32) \<or> n = 133 \<or> n = 160)"

definition is_digit :: "pychar \<Rightarrow> bool" where
  \<comment> \<open>\<open>[0-9]\<close>; also \<open>\d\<close>, which has no further member in the range\<close>
  "is_digit c = (let n = code_point c in 48 \<le> n \<and> n \<le> 57)"

definition is_ascii_alpha :: "pychar \<Rightarrow> bool" where
  \<comment> \<open>\<open>[a-zA-Z]\<close>\<close>
  "is_ascii_alpha c =
     (let n = code_point c in (65 \<le> n \<and> n \<le> 90) \<or> (97 \<le> n \<and> n \<le> 122))"

definition is_word :: "pychar \<Rightarrow> bool" where
  \<comment> \<open>the class \<open>\w\<close>: \<open>str.isalnum\<close> or an underscore\<close>
  "is_word c =
     (let n = code_point c
      in is_digit c \<or> is_ascii_alpha c \<or> n = 95 \<or> n = 170 \<or> n = 178 \<or> n = 179 \<or> n = 181
         \<or> n = 185 \<or> n = 186 \<or> (188 \<le> n \<and> n \<le> 190) \<or> (192 \<le> n \<and> n \<le> 214)
         \<or> (216 \<le> n \<and> n \<le> 246) \<or> (248 \<le> n \<and> n \<le> 255))"

definition is_upper :: "pychar \<Rightarrow> bool" where
  "is_upper c =
     (let n = code_point c
      in (65 \<le> n \<and> n \<le> 90) \<or> (192 \<le> n \<and> n \<le> 214) \<or> (216 \<le> n \<and> n \<le> 222))"

definition is_lower :: "pychar \<Rightarrow> bool" where
  \<comment> \<open>lower-case letters, with the ordinal indicators U+00AA and U+00BA as Python has them\<close>
  "is_lower c =
     (let n = code_point c
      in (97 \<le> n \<and> n \<le> 122) \<or> n = 170 \<or> n = 181 \<or> n = 186 \<or> (223 \<le> n \<and> n \<le> 246)
         \<or> (248 \<le> n \<and> n \<le> 255))"

fun py_lower_char :: "pychar \<Rightarrow> pychar" where
  "py_lower_char (Ch c) = (if is_upper (Ch c) then Ch (char_of (of_char c + (32::nat))) else Ch c)"
| "py_lower_char c = c"

fun py_title_char :: "pychar \<Rightarrow> pystr" where
  \<comment> \<open>the title-case form, which for a letter of the range is its upper-case form, except
      that U+00DF becomes \<open>Ss\<close>. The forms of U+00B5 and U+00FF are U+039C and U+0178,
      outside the modelled range: the model leaves these two characters as they are.\<close>
  "py_title_char (Ch c) =
     (let n = (of_char c :: nat)
      in if (97 \<le> n \<and> n \<le> 122) \<or> (224 \<le> n \<and> n \<le> 246) \<or> (248 \<le> n \<and> n \<le> 254)
         then [Ch (char_of (n - 32))]
         else if n = 223 then str ''Ss''
         else [Ch c])"
| "py_title_char c = [c]"

definition py_lower :: "pystr \<Rightarrow> pystr" where
  \<comment> \<open>\<open>s.lower()\<close>\<close>
  "py_lower s = map py_lower_char s"

fun title_from :: "bool \<Rightarrow> pystr \<Rightarrow> pystr" where
  \<comment> \<open>the loop of \<open>str.title\<close>; the flag says whether the previous character is cased\<close>
  "title_from prev_cased [] = []"
| "title_from prev_cased (c # cs) =
     (if prev_cased then [py_lower_char c] else py_title_char c)
       @ title_from (is_upper c \<or> is_lower c) cs"

definition py_title :: "pystr \<Rightarrow> pystr" where
  \<comment> \<open>\<open>s.title()\<close>\<close>
  "py_title s = title_from False s"

definition py_capitalize :: "pystr \<Rightarrow> pystr" where
  \<comment> \<open>\<open>s.capitalize()\<close>\<close>
  "py_capitalize s = (case s of [] \<Rightarrow> [] | c # cs \<Rightarrow> py_title_char c @ py_lower cs)"

definition py_strip :: "pystr \<Rightarrow> pystr" where
  \<comment> \<open>\<open>s.strip()\<close>\<close>
  "py_strip s = rev (dropWhile is_space (rev (dropWhile is_space s)))"

definition py_strip_chars :: "pystr \<Rightarrow> pystr \<Rightarrow> pystr" where
  \<comment> \<open>\<open>s.strip(chars)\<close>\<close>
  "py_strip_chars chars s =
     rev (dropWhile (\<lambda>c. c \<in> set chars) (rev (dropWhile (\<lambda>c. c \<in> set chars) s)))"

fun join :: "pystr \<Rightarrow> pystr list \<Rightarrow> pystr" where
  \<comment> \<open>\<open>sep.join(xs)\<close>\<close>
  "join sep [] = []"
| "join sep [x] = x"
| "join sep (x # y # ys) = x @ sep @ join sep (y # ys)"

fun split_on :: "pychar \<Rightarrow> pystr \<Rightarrow> pystr list" where
  \<comment> \<open>\<open>s.split(sep)\<close> for a separator of one character\<close>
  "split_on sep [] = [[]]"
| "split_on sep (c # cs) =
     (if c = sep then [] # split_on sep cs
      else (case split_on sep cs of [] \<Rightarrow> [[c]] | x # xs \<Rightarrow> (c # x) # xs))"

definition is_linebreak :: "pychar \<Rightarrow> bool" where
  \<comment> \<open>the line boundaries of \<open>str.splitlines\<close>\<close>
  "is_linebreak c =
     (let n = code_point c in (10 \<le> n \<and> n \<le> 13) \<or> (28 \<le> n \<and> n \<le> 30) \<or> n = 133)"

function splitlines :: "pystr \<Rightarrow> pystr list" where
  \<comment> \<open>\<open>s.splitlines()\<close>: a carriage return directly followed by a line feed is one
      boundary; no empty line is reported after the last boundary\<close>
  "splitlines [] = []"
| "splitlines (c # cs) =
     (case dropWhile (\<lambda>x. \<not> is_linebreak x) (c # cs) of
        [] \<Rightarrow> [c # cs]
      | b # r \<Rightarrow>
          takeWhile (\<lambda>x. \<not> is_linebreak x) (c # cs)
            # splitlines (if b = Ch (CHR 0x0D) \<and> r \<noteq> [] \<and> hd r = Ch (CHR 0x0A) then tl r else r))"
  by pat_completeness auto
termination
proof (relation "measure length")
  show "wf (measure length)" by simp
next
  fix c :: pychar and cs b r
  assume a: "dropWhile (\<lambda>x. \<not> is_linebreak x) (c # cs) = b # r"
  have "length (dropWhile (\<lambda>x. \<not> is_linebreak x) (c # cs)) \<le> length (c # cs)"
    by (rule length_dropWhile_le)
  with a have "length r < length (c # cs)" by simp
  moreover have "length (tl r) \<le> length r" by simp
  ultimately show
    "((if b = Ch (CHR 0x0D) \<and> r \<noteq> [] \<and> hd r = Ch (CHR 0x0A) then tl r else r), c # cs)
       \<in> measure length"
    by auto
qed

fun match_ci :: "string \<Rightarrow> pystr \<Rightarrow> pystr option" where
  \<comment> \<open>a literal of lower-case ASCII letters matched under \<open>re.I\<close> at the start of the text;
      the result is the text after it\<close>
  "match_ci [] s = Some s"
| "match_ci (p # ps) [] = None"
| "match_ci (p # ps) (c # cs) = (if py_lower_char c = Ch p then match_ci ps cs else None)"

fun match_lit :: "string \<Rightarrow> pystr \<Rightarrow> pystr option" where
  \<comment> \<open>a literal matched exactly at the start of the text\<close>
  "match_lit [] s = Some s"
| "match_lit (p # ps) [] = None"
| "match_lit (p # ps) (c # cs) = (if c = Ch p then match_lit ps cs else None)"

definition word_boundary :: "pychar option \<Rightarrow> pystr \<Rightarrow> bool" where
  \<comment> \<open>\<open>\b\<close> between the character before the position and the text from it on\<close>
  "word_boundary prev s =
     ((case prev of None \<Rightarrow> False | Some p \<Rightarrow> is_word p)
        \<noteq> (case s of [] \<Rightarrow> False | c # _ \<Rightarrow> is_word c))"

text \<open>
  \<open>re.sub(pattern, repl, s)\<close>. A pattern is given by its matcher: called with the character
  before the position (for \<open>\b\<close> and lookbehind) and the text from the position on, it
  returns the text left after the match that Python's backtracking finds there, or
  \<open>None\<close>. The replacement is a function of the matched text. All patterns of the
  program match at least one character; a position without such a match copies its
  character.
\<close>

type_synonym matcher = "pychar option \<Rightarrow> pystr \<Rightarrow> pystr option"

function re_sub :: "matcher \<Rightarrow> (pystr \<Rightarrow> pystr) \<Rightarrow> pychar option \<Rightarrow> pystr \<Rightarrow> pystr" where
  "re_sub m f prev [] = []"
| "re_sub m f prev (c # cs) =
     (case m prev (c # cs) of
        None \<Rightarrow> c # re_sub m f (Some c) cs
      | Some r \<Rightarrow>
          if length r \<le> length cs
          then let k = Suc (length cs) - length r
               in f (take k (c # cs)) @ re_sub m f (Some ((c # cs) ! (k - 1))) (drop k (c # cs))
          else c # re_sub m f (Some c) cs)"
  by pat_completeness auto
termination
  by (relation "measure (\<lambda>(m, f, prev, s). length s)") auto

declare re_sub.simps [simp del]

section \<open>The text sanitizer\<close>

definition json_signs :: "pychar list" where
  \<comment> \<open>\<open>_JSON_SIGNS\<close>: braces, brackets, the backtick and the double quote\<close>
  "json_signs = [Ch CHR ''{'', Ch CHR ''}'', Ch CHR ''['', Ch CHR '']'', Ch (CHR 0x60), Ch (CHR 0x22)]"

definition remove_json_signs :: "pystr \<Rightarrow> pystr" where
  \<comment> \<open>\<open>_JSON_SIGNS.sub("", s)\<close>\<close>
  "remove_json_signs s = filter (\<lambda>c. c \<notin> set json_signs) s"

definition field_labels :: "string list" where
  "field_labels = [''title'', ''step'', ''steps'', ''ingredient'', ''ingredients'',
     ''description'', ''servings'', ''time_minutes'']"

definition match_colon :: "pystr \<Rightarrow> pystr option" where
  \<comment> \<open>\<open>\s*:\s*\<close>\<close>
  "match_colon s =
     (case dropWhile is_space s of
        [] \<Rightarrow> None
      | c # r \<Rightarrow> if c = Ch CHR '':'' then Some (dropWhile is_space r) else None)"

fun match_alt_colon :: "string list \<Rightarrow> pystr \<Rightarrow> pystr option" where
  \<comment> \<open>the alternatives in order, each followed by \<open>\s*:\s*\<close>; an alternative whose
      continuation fails gives way to the next\<close>
  "match_alt_colon [] s = None"
| "match_alt_colon (l # ls) s =
     (case match_ci l s of
        None \<Rightarrow> match_alt_colon ls s
      | Some r \<Rightarrow> (case match_colon r of None \<Rightarrow> match_alt_colon ls s | Some r' \<Rightarrow> Some r'))"

definition label_pattern :: matcher where
  \<comment> \<open>\<open>\b(title|step|...|time_minutes)\s*:\s*\<close> with \<open>re.I\<close>\<close>
  "label_pattern prev s =
     (if word_boundary prev s then match_alt_colon field_labels s else None)"

definition match_marker :: "pystr \<Rightarrow> pystr option" where
  \<comment> \<open>\<open>\s*([0-9]+[\.)]|[-*\<bullet>])\s*\<close> at the start of the text\<close>
  "match_marker s =
     (case dropWhile is_space s of
        [] \<Rightarrow> None
      | c # r \<Rightarrow>
          if is_digit c
          then (case dropWhile is_digit r of
                  [] \<Rightarrow> None
                | d # r' \<Rightarrow>
                    if d = Ch CHR ''.'' \<or> d = Ch CHR '')'' then Some (dropWhile is_space r')
                    else None)
          else if c = Ch CHR ''-'' \<or> c = Ch CHR ''*'' \<or> c = Bullet
          then Some (dropWhile is_space r)
          else None)"

definition strip_marker :: "pystr \<Rightarrow> pystr" where
  \<comment> \<open>\<open>re.sub(r"^\s*([0-9]+[\.)]|[-*\<bullet>])\s*", "", s)\<close>: the anchor admits the start only\<close>
  "strip_marker s = (case match_marker s of None \<Rightarrow> s | Some r \<Rightarrow> r)"

definition ws_pattern :: matcher where
  \<comment> \<open>\<open>\s+\<close>\<close>
  "ws_pattern prev s =
     (case s of [] \<Rightarrow> None | c # cs \<Rightarrow> if is_space c then Some (dropWhile is_space cs) else None)"

definition comma_pattern :: matcher where
  \<comment> \<open>\<open>\s*,\s*\<close>\<close>
  "comma_pattern prev s =
     (case dropWhile is_space s of
        [] \<Rightarrow> None
      | c # r \<Rightarrow> if c = Ch CHR '','' then Some (dropWhile is_space r) else None)"

definition clean_text :: "pystr \<Rightarrow> pystr" where
  \<comment> \<open>\<open>_clean_text\<close>, for an argument that is a string\<close>
  "clean_text s0 =
     (let s = py_strip s0;
          s = remove_json_signs s;
          s = re_sub label_pattern (\<lambda>_. []) None s;
          s = strip_marker s;
          s = re_sub ws_pattern (\<lambda>_. str '' '') None s;
          s = re_sub comma_pattern (\<lambda>_. str '', '') None s
      in py_strip s)"

section \<open>Python values\<close>

text \<open>
  The values that \<open>json.loads\<close> returns and the program passes around: \<open>None\<close>, booleans,
  integers, strings, lists and dictionaries (in insertion order, with string keys).
  Floating-point numbers are not modelled.
\<close>

datatype jv = JNull | JBool bool | JInt int | JStr pystr | JList "jv list" | JDict "(pystr \<times> jv) list"

datatype error = AttributeError | TypeError | ValueError | KeyError

fun truthy :: "jv \<Rightarrow> bool" where
  "truthy JNull = False"
| "truthy (JBool b) = b"
| "truthy (JInt i) = (i \<noteq> 0)"
| "truthy (JStr s) = (s \<noteq> [])"
| "truthy (JList xs) = (xs \<noteq> [])"
| "truthy (JDict d) = (d \<noteq> [])"

definition py_or :: "jv \<Rightarrow> jv \<Rightarrow> jv" where
  \<comment> \<open>\<open>a or b\<close>\<close>
  "py_or a b = (if truthy a then a else b)"

definition py_get :: "(pystr \<times> jv) list \<Rightarrow> string \<Rightarrow> jv" where
  \<comment> \<open>\<open>d.get(k)\<close>, \<open>None\<close> for a missing key\<close>
  "py_get d k = (case map_of d (str k) of None \<Rightarrow> JNull | Some v \<Rightarrow> v)"

definition digit_char :: "nat \<Rightarrow> pychar" where
  "digit_char d = Ch (char_of (48 + d))"

fun show_nat :: "nat \<Rightarrow> pystr" where
  "show_nat n = (if n < 10 then [digit_char n] else show_nat (n div 10) @ [digit_char (n mod 10)])"

declare show_nat.simps [simp del]

definition show_int :: "int \<Rightarrow> pystr" where
  \<comment> \<open>\<open>str(i)\<close> for an integer\<close>
  "show_int i = (if i < 0 then Ch CHR ''-'' # show_nat (nat (- i)) else show_nat (nat i))"

definition hex_char :: "nat \<Rightarrow> pychar" where
  "hex_char d = (if d < 10 then Ch (char_of (48 + d)) else Ch (char_of (87 + d)))"

definition is_printable :: "pychar \<Rightarrow> bool" where
  \<comment> \<open>\<open>str.isprintable\<close>\<close>
  "is_printable c =
     (let n = code_point c in (32 \<le> n \<and> n \<le> 126) \<or> (161 \<le> n \<and> n \<noteq> 173))"

definition repr_char :: "pychar \<Rightarrow> pychar \<Rightarrow> pystr" where
  \<comment> \<open>one character inside the \<open>repr\<close> of a string delimited by \<open>quote\<close>\<close>
  "repr_char quote c =
     (if c = quote \<or> c = Ch (CHR 0x5C) then [Ch (CHR 0x5C), c]
      else if c = Ch (CHR 0x09) then [Ch (CHR 0x5C), Ch CHR ''t'']
      else if c = Ch (CHR 0x0A) then [Ch (CHR 0x5C), Ch CHR ''n'']
      else if c = Ch (CHR 0x0D) then [Ch (CHR 0x5C), Ch CHR ''r'']
      else if is_printable c then [c]
      else [Ch (CHR 0x5C), Ch CHR ''x'', hex_char (code_point c div 16), hex_char (code_point c mod 16)])"

definition repr_str :: "pystr \<Rightarrow> pystr" where
  \<comment> \<open>\<open>repr(s)\<close> for a string: double quotes only when the text has a single quote and
      no double quote\<close>
  "repr_str s =
     (let quote = (if Ch (CHR 0x27) \<in> set s \<and> Ch (CHR 0x22) \<notin> set s then Ch (CHR 0x22) else Ch (CHR 0x27))
      in quote # concat (map (repr_char quote) s) @ [quote])"

fun py_repr :: "jv \<Rightarrow> pystr" where
  \<comment> \<open>\<open>repr(v)\<close>\<close>
  "py_repr JNull = str ''None''"
| "py_repr (JBool b) = (if b then str ''True'' else str ''False'')"
| "py_repr (JInt i) = show_int i"
| "py_repr (JStr s) = repr_str s"
| "py_repr (JList xs) = str ''['' @ join (str '', '') (map py_repr xs) @ str '']''"
| "py_repr (JDict d) =
     str ''{'' @ join (str '', '') (map (\<lambda>kv. repr_str (fst kv) @ str '': '' @ py_repr (snd kv)) d)
       @ str ''}''"

definition py_str :: "jv \<Rightarrow> pystr" where
  \<comment> \<open>\<open>str(v)\<close>\<close>
  "py_str v = (case v of JStr s \<Rightarrow> s | _ \<Rightarrow> py_repr v)"

section \<open>Integer parsing\<close>

definition is_int_space :: "pychar \<Rightarrow> bool" where
  \<comment> \<open>the white space that \<open>int(s)\<close> skips at both ends\<close>
  "is_int_space c = (let n = code_point c in (9 \<le> n \<and> n \<le> 13) \<or> n = 32 \<or> n = 133 \<or> n = 160)"

fun int_digits :: "nat \<Rightarrow> pystr \<Rightarrow> nat option" where
  \<comment> \<open>the digits after the first one, single underscores allowed between two digits\<close>
  "int_digits acc [] = Some acc"
| "int_digits acc (c # cs) =
     (if is_digit c then int_digits (10 * acc + (code_point c - 48)) cs
      else if c = Ch CHR ''_'' then
        (case cs of
           [] \<Rightarrow> None
         | d # ds \<Rightarrow> if is_digit d then int_digits (10 * acc + (code_point d - 48)) ds else None)
      else None)"

definition parse_int :: "pystr \<Rightarrow> int option" where
  \<comment> \<open>\<open>int(s)\<close> for a string, \<open>None\<close> where it raises \<open>ValueError\<close>. The interpreter's limit
      on the number of digits is not modelled.\<close>
  "parse_int s =
     (let t = rev (dropWhile is_int_space (rev (dropWhile is_int_space s)));
          neg = (t \<noteq> [] \<and> hd t = Ch CHR ''-'');
          u = (if t \<noteq> [] \<and> (hd t = Ch CHR ''-'' \<or> hd t = Ch CHR ''+'') then tl t else t)
      in case u of
           [] \<Rightarrow> None
         | c # cs \<Rightarrow>
             if is_digit c
             then (case int_digits (code_point c - 48) cs of
                     None \<Rightarrow> None
                   | Some n \<Rightarrow> Some (if neg then - int n else int n))
             else None)"

definition as_int :: "jv \<Rightarrow> int \<Rightarrow> int" where
  \<comment> \<open>\<open>_as_int\<close>: \<open>int(v)\<close>, the default where it raises\<close>
  "as_int v dflt =
     (case v of
        JInt i \<Rightarrow> i
      | JBool b \<Rightarrow> (if b then 1 else 0)
      | JStr s \<Rightarrow> (case parse_int s of None \<Rightarrow> dflt | Some i \<Rightarrow> i)
      | _ \<Rightarrow> dflt)"

section \<open>Structural coercion\<close>

definition coerce_list :: "jv \<Rightarrow> jv list" where
  \<comment> \<open>\<open>_coerce_list\<close>\<close>
  "coerce_list v =
     (case v of
        JNull \<Rightarrow> []
      | JList xs \<Rightarrow> xs
      | JStr s \<Rightarrow>
          map JStr (filter (\<lambda>p. p \<noteq> [])
            (map py_strip (if Ch (CHR 0x0A) \<in> set s then splitlines s else split_on (Ch CHR '','') s)))
      | _ \<Rightarrow> [v])"

definition step_keys :: "string list" where
  "step_keys = [''instructions'', ''instruction'', ''step'', ''direction'', ''text'']"

definition plainify_ingredient :: "jv \<Rightarrow> pystr" where
  \<comment> \<open>\<open>_plainify_ingredient\<close>\<close>
  "plainify_ingredient x =
     (case x of
        JDict d \<Rightarrow>
          (let name = py_or (py_get d ''name'') (py_or (py_get d ''ingredient'') (py_get d ''item''));
               qty = py_or (py_get d ''quantity'') (py_or (py_get d ''amount'') (py_get d ''qty''))
           in if truthy name \<and> truthy qty
              then clean_text (py_str name @ [Ch CHR '' '', EmDash, Ch CHR '' ''] @ py_str qty)
              else if truthy name then clean_text (py_str name)
              else (let pieces = map (\<lambda>kv. py_str (snd kv))
                            (filter (\<lambda>kv. py_lower (fst kv) \<notin> set (map str step_keys)) d)
                    in if pieces \<noteq> [] then clean_text (join (str '', '') pieces)
                       else str ''Ingredient''))
      | JList xs \<Rightarrow> clean_text (join (str '', '') (map py_str xs))
      | _ \<Rightarrow> clean_text (py_str x))"

fun first_step_key :: "string list \<Rightarrow> (pystr \<times> jv) list \<Rightarrow> jv option" where
  \<comment> \<open>the value of the first key of the list that is in the dictionary with a value whose
      text is not blank\<close>
  "first_step_key [] d = None"
| "first_step_key (k # ks) d =
     (case map_of d (str k) of
        None \<Rightarrow> first_step_key ks d
      | Some v \<Rightarrow> if py_strip (py_str v) \<noteq> [] then Some v else first_step_key ks d)"

definition plainify_step :: "jv \<Rightarrow> pystr" where
  \<comment> \<open>\<open>_plainify_step\<close>\<close>
  "plainify_step x =
     (case x of
        JDict d \<Rightarrow>
          (case first_step_key step_keys d of
             Some v \<Rightarrow> clean_text (py_str v)
           | None \<Rightarrow> clean_text (join (str ''. '') (map (\<lambda>kv. py_str (snd kv)) d)))
      | JList xs \<Rightarrow> clean_text (join (str ''. '') (map py_str xs))
      | _ \<Rightarrow> clean_text (py_str x))"

section \<open>The record finalizer\<close>

definition default_title :: pystr where
  "default_title = str ''Chef's Quick Weeknight Dish''"

definition default_description :: pystr where
  "default_description = str ''A tasty, no-fuss recipe.''"

definition description_tail :: pystr where
  "description_tail = str '' turned into a balanced, easy-to-cook recipe.''"

definition default_ingredients :: "pystr list" where
  "default_ingredients = [str ''Salt'', str ''Pepper'', str ''Olive oil'']"

definition default_steps :: "pystr list" where
  "default_steps = [str ''Combine ingredients and cook to taste.'']"

definition title_placeholders :: "pystr list" where
  "title_placeholders = [str ''untitled recipe'', str ''recipe'']"

definition description_placeholders :: "pystr list" where
  "description_placeholders =
     [str ''a delicious dish created by ai.'', str ''a delicious dish created by ai'']"

definition idea_title :: "pystr \<Rightarrow> pystr" where
  \<comment> \<open>\<open>idea.strip().title() if idea.strip() else "Chef's Quick Weeknight Dish"\<close>\<close>
  "idea_title idea = (if py_strip idea \<noteq> [] then py_title (py_strip idea) else default_title)"

definition idea_description :: "pystr \<Rightarrow> pystr" where
  "idea_description idea =
     (if py_strip idea \<noteq> [] then py_capitalize (py_strip idea) @ description_tail
      else default_description)"

fun pair_of_item :: "jv \<Rightarrow> error + (pystr option \<times> jv)" where
  \<comment> \<open>one element of a list handed to \<open>dict()\<close>: it must be a sequence of length two with a
      hashable first member. The key is \<open>None\<close> when it is not a string.\<close>
  "pair_of_item (JStr s) =
     (case s of [a, b] \<Rightarrow> Inr (Some [a], JStr [b]) | _ \<Rightarrow> Inl ValueError)"
| "pair_of_item (JList ys) =
     (case ys of
        [k, v] \<Rightarrow>
          (case k of
             JStr s \<Rightarrow> Inr (Some s, v)
           | JList _ \<Rightarrow> Inl TypeError
           | JDict _ \<Rightarrow> Inl TypeError
           | _ \<Rightarrow> Inr (None, v))
      | _ \<Rightarrow> Inl ValueError)"
| "pair_of_item (JDict d) =
     (case d of [(k1, _), (k2, _)] \<Rightarrow> Inr (Some k1, JStr k2) | _ \<Rightarrow> Inl ValueError)"
| "pair_of_item _ = Inl TypeError"

fun dict_of_items :: "(pystr \<times> jv) list \<Rightarrow> jv list \<Rightarrow> error + (pystr \<times> jv) list" where
  "dict_of_items acc [] = Inr acc"
| "dict_of_items acc (x # xs) =
     (case pair_of_item x of
        Inl e \<Rightarrow> Inl e
      | Inr (None, v) \<Rightarrow> dict_of_items acc xs
      | Inr (Some k, v) \<Rightarrow> dict_of_items (AList.update k v acc) xs)"

definition py_dict :: "jv \<Rightarrow> error + (pystr \<times> jv) list" where
  \<comment> \<open>\<open>dict(data or {})\<close>. A list of pairs is accepted by \<open>dict\<close>; its entries under keys
      that are not strings, which the program never reads, are left out of the model.\<close>
  "py_dict data =
     (if \<not> truthy data then Inr []
      else case data of
             JDict d \<Rightarrow> Inr d
           | JList xs \<Rightarrow> dict_of_items [] xs
           | JStr s \<Rightarrow> Inl ValueError
           | _ \<Rightarrow> Inl TypeError)"

definition clean_field :: "jv \<Rightarrow> error + pystr" where
  \<comment> \<open>\<open>_clean_text(v or "").strip()\<close>: a value that is true and not a string has no
      method \<open>strip\<close>\<close>
  "clean_field v =
     (if \<not> truthy v then Inr (py_strip (clean_text []))
      else case v of JStr s \<Rightarrow> Inr (py_strip (clean_text s)) | _ \<Rightarrow> Inl AttributeError)"

definition sanitize_recipe_data :: "jv \<Rightarrow> pystr \<Rightarrow> error + (pystr \<times> jv) list" where
  \<comment> \<open>\<open>sanitize_recipe_data\<close>\<close>
  "sanitize_recipe_data data idea =
     (case py_dict data of
        Inl e \<Rightarrow> Inl e
      | Inr out \<Rightarrow>
     (case clean_field (py_get out ''title'') of
        Inl e \<Rightarrow> Inl e
      | Inr title0 \<Rightarrow>
     (case clean_field (py_get out ''description'') of
        Inl e \<Rightarrow> Inl e
      | Inr desc0 \<Rightarrow>
          (let servings = as_int (py_get out ''servings'') 2;
               time_minutes = as_int (py_get out ''time_minutes'') 20;
               ingredients_raw = coerce_list (py_get out ''ingredients'');
               steps_raw = coerce_list (py_get out ''steps'');
               ingredients0 = map plainify_ingredient
                 (filter (\<lambda>x. py_strip (py_str x) \<noteq> []) ingredients_raw);
               steps0 = map plainify_step (filter (\<lambda>x. py_strip (py_str x) \<noteq> []) steps_raw);
               title = (if title0 = [] \<or> py_lower title0 \<in> set title_placeholders
                        then idea_title idea else title0);
               desc = (if desc0 = [] \<or> py_lower desc0 \<in> set description_placeholders
                       then idea_description idea else desc0);
               ingredients = (if ingredients0 = [] then default_ingredients else ingredients0);
               steps = (if steps0 = [] then default_steps else steps0)
           in Inr (AList.update (str ''steps'') (JList (map JStr steps))
                  (AList.update (str ''ingredients'') (JList (map JStr ingredients))
                  (AList.update (str ''time_minutes'') (JInt time_minutes)
                  (AList.update (str ''servings'') (JInt servings)
                  (AList.update (str ''description'') (JStr desc)
                  (AList.update (str ''title'') (JStr title) out))))))))))"

section \<open>Title uniqueness\<close>

type_synonym registry = "pystr \<rightharpoonup> nat"

definition unique_title :: "registry \<Rightarrow> pystr \<Rightarrow> pystr \<times> registry" where
  \<comment> \<open>\<open>_unique_title\<close>: the displayed title and the registry \<open>_seen_titles\<close> after the call\<close>
  "unique_title seen title =
     (let base = py_strip (if title = [] then default_title else title);
          key = py_lower base;
          n = (case seen key of None \<Rightarrow> 0 | Some n \<Rightarrow> n)
      in if n = 0 then (base, seen(key \<mapsto> 1))
         else (base @ str '' (v'' @ show_nat (n + 1) @ str '')'', seen(key \<mapsto> n + 1)))"



fun session_titles :: "registry \<Rightarrow> pystr list \<Rightarrow> pystr list" where
  \<comment> \<open>the titles displayed in a session whose recipes are finalized with the given titles,
      each passed once through the registry\<close>
  "session_titles seen [] = []"
| "session_titles seen (t # ts) =
     (case unique_title seen t of (shown, seen') \<Rightarrow> shown # session_titles seen' ts)"


section \<open>The heuristic text extractor\<close>

definition match_sep :: "pystr \<Rightarrow> pystr option" where
  \<comment> \<open>\<open>\s*[:\n]+\<close> before a pattern that matches anything: white space that is followed
      by a colon takes the whole run of colons and line feeds; otherwise the white space
      is given back down to its last line feed, which alone is the separator\<close>
  "match_sep s =
     (let w = takeWhile is_space s; r = dropWhile is_space s
      in if r \<noteq> [] \<and> hd r = Ch CHR '':''
         then Some (dropWhile (\<lambda>c. c = Ch CHR '':'' \<or> c = Ch (CHR 0x0A)) r)
         else if Ch (CHR 0x0A) \<in> set w
         then Some (rev (takeWhile (\<lambda>c. c \<noteq> Ch (CHR 0x0A)) (rev w)) @ r)
         else None)"

definition has_colon :: "pystr \<Rightarrow> bool" where
  \<comment> \<open>\<open>\s*:\<close> matches at the start of the text\<close>
  "has_colon s = (case dropWhile is_space s of [] \<Rightarrow> False | c # _ \<Rightarrow> c = Ch CHR '':'')"

definition match_stem_s :: "string \<Rightarrow> (pystr \<Rightarrow> 'a option) \<Rightarrow> pystr \<Rightarrow> 'a option" where
  \<comment> \<open>a word with an optional final \<open>s\<close> under \<open>re.I\<close>, followed by the continuation: the
      \<open>s\<close> is taken when it is there, and given back when the continuation fails after it\<close>
  "match_stem_s stem cont s =
     (case match_ci stem s of
        None \<Rightarrow> None
      | Some r \<Rightarrow>
          (case r of
             [] \<Rightarrow> cont r
           | c # r' \<Rightarrow>
               if py_lower_char c = Ch CHR ''s''
               then (case cont r' of Some x \<Rightarrow> Some x | None \<Rightarrow> cont r)
               else cont r))"

definition match_section_label :: "(pystr \<Rightarrow> 'a option) \<Rightarrow> pystr \<Rightarrow> 'a option" where
  \<comment> \<open>\<open>(steps?|method|directions?)\<close> under \<open>re.I\<close>, followed by the continuation\<close>
  "match_section_label cont s =
     (case match_stem_s ''step'' cont s of
        Some x \<Rightarrow> Some x
      | None \<Rightarrow>
          (case (case match_ci ''method'' s of None \<Rightarrow> None | Some r \<Rightarrow> cont r) of
             Some x \<Rightarrow> Some x
           | None \<Rightarrow> match_stem_s ''direction'' cont s))"

definition section_end :: "pystr \<Rightarrow> bool" where
  \<comment> \<open>\<open>\n\s*(steps?|method|directions?)\s*:\<close> matches at the start of the text\<close>
  "section_end s =
     (case s of
        [] \<Rightarrow> False
      | c # r \<Rightarrow>
          c = Ch (CHR 0x0A)
          \<and> match_section_label (\<lambda>t. if has_colon t then Some () else None)
                (dropWhile is_space r) \<noteq> None)"

fun until_section_end :: "pystr \<Rightarrow> pystr" where
  \<comment> \<open>the lazy \<open>(.*?)\<close> before \<open>(?:\n\s*(steps?|method|directions?)\s*:|\Z)\<close>\<close>
  "until_section_end [] = []"
| "until_section_end (c # cs) =
     (if section_end (c # cs) then [] else c # until_section_end cs)"

fun ing_match :: "pystr \<Rightarrow> pystr option" where
  \<comment> \<open>group 2 of the leftmost match of the ingredients pattern\<close>
  "ing_match [] = None"
| "ing_match (c # cs) =
     (case match_stem_s ''ingredient'' match_sep (c # cs) of
        Some r \<Rightarrow> Some (until_section_end r)
      | None \<Rightarrow> ing_match cs)"

fun steps_match :: "pystr \<Rightarrow> pystr option" where
  \<comment> \<open>group 2 of the leftmost match of \<open>(steps?|method|directions?)\s*[:\n]+(.*)\<close>\<close>
  "steps_match [] = None"
| "steps_match (c # cs) =
     (case match_section_label match_sep (c # cs) of
        Some r \<Rightarrow> Some r
      | None \<Rightarrow> steps_match cs)"

definition bullet_padding :: pystr where
  \<comment> \<open>the characters of \<open>" -*\t\r\n"\<close>\<close>
  "bullet_padding = [Ch CHR '' '', Ch CHR ''-'', Ch CHR ''*'', Ch (CHR 0x09), Ch (CHR 0x0D), Ch (CHR 0x0A)]"

definition is_bullet_line :: "pystr \<Rightarrow> bool" where
  \<comment> \<open>\<open>re.match(r"\s*[-*]\s+", line)\<close>\<close>
  "is_bullet_line line =
     (case dropWhile is_space line of
        [] \<Rightarrow> False
      | c # r \<Rightarrow> (c = Ch CHR ''-'' \<or> c = Ch CHR ''*'') \<and> r \<noteq> [] \<and> is_space (hd r))"

definition in_number_tail :: "pychar \<Rightarrow> bool" where
  \<comment> \<open>the class \<open>[\).\s-]\<close>\<close>
  "in_number_tail c = (c = Ch CHR '')'' \<or> c = Ch CHR ''.'' \<or> is_space c \<or> c = Ch CHR ''-'')"

definition match_number :: "pystr \<Rightarrow> pystr option" where
  \<comment> \<open>\<open>^\s*\d+[\).\s-]+\s*\<close> at the start of the line; the result is the line after it\<close>
  "match_number line =
     (case dropWhile is_space line of
        [] \<Rightarrow> None
      | c # r \<Rightarrow>
          if is_digit c
          then (case dropWhile is_digit r of
                  [] \<Rightarrow> None
                | d # r' \<Rightarrow>
                    if in_number_tail d
                    then Some (dropWhile is_space (dropWhile in_number_tail r'))
                    else None)
          else None)"

definition strip_number :: "pystr \<Rightarrow> pystr" where
  \<comment> \<open>\<open>re.sub(r"^\s*\d+[\).\s-]+\s*", "", line)\<close>\<close>
  "strip_number line = (case match_number line of None \<Rightarrow> line | Some r \<Rightarrow> r)"

definition heuristic_ingredients :: "pystr \<Rightarrow> pystr list" where
  \<comment> \<open>the list \<open>ing\<close> before the safety net\<close>
  "heuristic_ingredients cleaned =
     (case ing_match cleaned of
        Some block \<Rightarrow>
          filter (\<lambda>line. line \<noteq> []) (map (py_strip_chars bullet_padding) (splitlines block))
      | None \<Rightarrow>
          map (py_strip_chars bullet_padding) (filter is_bullet_line (splitlines cleaned)))"

definition heuristic_steps :: "pystr \<Rightarrow> pystr list" where
  \<comment> \<open>the list \<open>steps\<close> before the safety net\<close>
  "heuristic_steps cleaned =
     (case steps_match cleaned of
        Some block \<Rightarrow>
          filter (\<lambda>line. line \<noteq> []) (map (\<lambda>line. strip_number (py_strip line)) (splitlines block))
      | None \<Rightarrow>
          map (\<lambda>line. py_strip (strip_number line))
            (filter (\<lambda>line. match_number line \<noteq> None) (splitlines cleaned)))"

definition normalize_bullets :: "pystr \<Rightarrow> pystr" where
  \<comment> \<open>\<open>text.replace("\<bullet>", "-")\<close>\<close>
  "normalize_bullets text = map (\<lambda>c. if c = Bullet then Ch CHR ''-'' else c) text"

definition heuristic_from_text :: "pystr \<Rightarrow> pystr \<Rightarrow> (pystr \<times> jv) list" where
  \<comment> \<open>\<open>heuristic_from_text\<close>\<close>
  "heuristic_from_text text idea =
     (let cleaned = normalize_bullets text;
          ing0 = heuristic_ingredients cleaned;
          steps0 = heuristic_steps cleaned;
          ing = (if ing0 = [] then default_ingredients else ing0);
          steps = (if steps0 = [] then default_steps else steps0)
      in [(str ''title'', JStr (idea_title idea)),
          (str ''description'', JStr (idea_description idea)),
          (str ''servings'', JInt 2),
          (str ''time_minutes'', JInt 20),
          (str ''ingredients'', JList (map JStr ing)),
          (str ''steps'', JList (map JStr steps))])"

section \<open>The JSON extractor\<close>

text \<open>
  \<open>json.loads\<close> belongs to Python's library, not to the program: the extractor and the
  repairer take it as a parameter \<open>loads\<close>, which returns \<open>None\<close> where \<open>json.loads\<close> raises.
\<close>

type_synonym json_loads = "pystr \<Rightarrow> jv option"









section \<open>The heuristic repairer\<close>

fun skip_to_fence :: "pystr \<Rightarrow> pystr option" where
  \<comment> \<open>\<open>.*?```\<close> with \<open>re.S\<close>: the text after the next fence marker\<close>
  "skip_to_fence [] = None"
| "skip_to_fence (c # cs) =
     (case match_lit ''```'' (c # cs) of
        Some r \<Rightarrow> Some r
      | None \<Rightarrow> skip_to_fence cs)"

definition fence_pattern :: matcher where
  \<comment> \<open>\<open>```.*?```\<close> with \<open>re.S\<close>\<close>
  "fence_pattern prev s = (case match_lit ''```'' s of None \<Rightarrow> None | Some r \<Rightarrow> skip_to_fence r)"

definition py_replace :: "string \<Rightarrow> pystr \<Rightarrow> pystr \<Rightarrow> pystr" where
  \<comment> \<open>\<open>s.replace(old, new)\<close> for a literal \<open>old\<close> that is not empty\<close>
  "py_replace old new s = re_sub (\<lambda>prev t. match_lit old t) (\<lambda>_. new) None s"

definition between_braces :: "pystr \<Rightarrow> pystr" where
  \<comment> \<open>\<open>t[t.find("{"): t.rfind("}") + 1]\<close> when both characters occur, else \<open>t\<close>\<close>
  "between_braces t =
     (if Ch CHR ''{'' \<in> set t \<and> Ch CHR ''}'' \<in> set t
      then (let i = length (takeWhile (\<lambda>c. c \<noteq> Ch CHR ''{'') t);
                j = length t - length (takeWhile (\<lambda>c. c \<noteq> Ch CHR ''}'') (rev t))
            in take (j - i) (drop i t))
      else t)"

definition quote_pattern :: matcher where
  \<comment> \<open>\<open>(?<!\\)'\<close>\<close>
  "quote_pattern prev s =
     (case s of
        [] \<Rightarrow> None
      | c # cs \<Rightarrow> if c = Ch (CHR 0x27) \<and> prev \<noteq> Some (Ch (CHR 0x5C)) then Some cs else None)"

definition is_ident :: "pychar \<Rightarrow> bool" where
  \<comment> \<open>\<open>[a-zA-Z0-9_]\<close>\<close>
  "is_ident c = (is_ascii_alpha c \<or> is_digit c \<or> c = Ch CHR ''_'')"

definition key_pattern :: matcher where
  \<comment> \<open>\<open>(\b[a-zA-Z_][a-zA-Z0-9_]*\b)\s*:\<close>. The identifier is taken greedily; a shorter
      one would end between two word characters, where \<open>\b\<close> fails.\<close>
  "key_pattern prev s =
     (case s of
        [] \<Rightarrow> None
      | c # cs \<Rightarrow>
          if (is_ascii_alpha c \<or> c = Ch CHR ''_'') \<and> word_boundary prev s
          then (let r = dropWhile is_ident cs
                in if word_boundary (Some (last (c # takeWhile is_ident cs))) r
                   then (case dropWhile is_space r of
                           [] \<Rightarrow> None
                         | d # r' \<Rightarrow> if d = Ch CHR '':'' then Some r' else None)
                   else None)
          else None)"

definition quote_key :: "pystr \<Rightarrow> pystr" where
  \<comment> \<open>the replacement \<open>"\1":\<close>, group 1 being the identifier at the start of the match\<close>
  "quote_key m = Ch (CHR 0x22) # takeWhile is_ident m @ [Ch (CHR 0x22), Ch CHR '':'']"

definition trailing_comma_pattern :: matcher where
  \<comment> \<open>\<open>,\s*([}\]])\<close>\<close>
  "trailing_comma_pattern prev s =
     (case s of
        [] \<Rightarrow> None
      | c # cs \<Rightarrow>
          if c = Ch CHR '',''
          then (case dropWhile is_space cs of
                  [] \<Rightarrow> None
                | d # r \<Rightarrow> if d = Ch CHR ''}'' \<or> d = Ch CHR '']'' then Some r else None)
          else None)"

definition repair_text :: "pystr \<Rightarrow> pystr" where
  \<comment> \<open>the text that \<open>repair_json_like\<close> hands to \<open>json.loads\<close>\<close>
  "repair_text text =
     (let t = re_sub fence_pattern (py_replace ''```'' []) None text;
          t = between_braces t;
          t = re_sub quote_pattern (\<lambda>_. [Ch (CHR 0x22)]) None t;
          t = re_sub key_pattern quote_key None t
      in re_sub trailing_comma_pattern (\<lambda>m. [last m]) None t)"

definition repair_json_like :: "json_loads \<Rightarrow> pystr \<Rightarrow> jv" where
  \<comment> \<open>\<open>repair_json_like\<close>; the result \<open>JNull\<close> is Python's \<open>None\<close>\<close>
  "repair_json_like loads text =
     (if text = [] then JNull
      else case loads (repair_text text) of Some v \<Rightarrow> v | None \<Rightarrow> JNull)"

section \<open>A JSON reader\<close>

text \<open>
  For statements about concrete texts, \<open>json_loads\<close> reads JSON as \<open>json.loads\<close> does on the
  texts without a fraction, an exponent, \<open>NaN\<close>, \<open>Infinity\<close> or a \<open>\u\<close> escape, and returns
  \<open>None\<close> on every other text. The first argument of the mutually recursive readers
  bounds the nesting.
\<close>

definition is_json_space :: "pychar \<Rightarrow> bool" where
  "is_json_space c = (c = Ch CHR '' '' \<or> c = Ch (CHR 0x09) \<or> c = Ch (CHR 0x0A) \<or> c = Ch (CHR 0x0D))"

definition json_escape :: "pychar \<Rightarrow> pychar option" where
  "json_escape e =
     (if e = Ch (CHR 0x22) \<or> e = Ch (CHR 0x5C) \<or> e = Ch CHR ''/'' then Some e
      else if e = Ch CHR ''b'' then Some (Ch (CHR 0x08))
      else if e = Ch CHR ''f'' then Some (Ch (CHR 0x0C))
      else if e = Ch CHR ''n'' then Some (Ch (CHR 0x0A))
      else if e = Ch CHR ''r'' then Some (Ch (CHR 0x0D))
      else if e = Ch CHR ''t'' then Some (Ch (CHR 0x09))
      else None)"

fun json_string :: "pystr \<Rightarrow> (pystr \<times> pystr) option" where
  \<comment> \<open>the text after an opening quote: the string and the text after its closing quote\<close>
  "json_string [] = None"
| "json_string (c # cs) =
     (if c = Ch (CHR 0x22) then Some ([], cs)
      else if c = Ch (CHR 0x5C) then
        (case cs of
           [] \<Rightarrow> None
         | e # r \<Rightarrow>
             (case json_escape e of
                None \<Rightarrow> None
              | Some x \<Rightarrow> (case json_string r of None \<Rightarrow> None | Some (s, t) \<Rightarrow> Some (x # s, t))))
      else if code_point c < 32 then None
      else (case json_string cs of None \<Rightarrow> None | Some (s, t) \<Rightarrow> Some (c # s, t)))"

definition json_number :: "pystr \<Rightarrow> (int \<times> pystr) option" where
  \<comment> \<open>\<open>-?(0|[1-9][0-9]*)\<close> not followed by a fraction or an exponent\<close>
  "json_number s =
     (let neg = (s \<noteq> [] \<and> hd s = Ch CHR ''-'');
          u = (if neg then tl s else s);
          ds = (if u \<noteq> [] \<and> hd u = Ch CHR ''0'' then [hd u] else takeWhile is_digit u);
          r = drop (length ds) u;
          n = foldl (\<lambda>a c. 10 * a + (code_point c - 48)) 0 ds
      in if ds = [] \<or> (r \<noteq> [] \<and> hd r \<in> {Ch CHR ''.'', Ch CHR ''e'', Ch CHR ''E''}) then None
         else Some (if neg then - int n else int n, r))"

fun json_value :: "nat \<Rightarrow> pystr \<Rightarrow> (jv \<times> pystr) option"
  and json_elements :: "nat \<Rightarrow> jv list \<Rightarrow> pystr \<Rightarrow> (jv \<times> pystr) option"
  and json_members :: "nat \<Rightarrow> (pystr \<times> jv) list \<Rightarrow> pystr \<Rightarrow> (jv \<times> pystr) option" where
  "json_value 0 s = None"
| "json_value (Suc n) s =
     (case s of
        [] \<Rightarrow> None
      | c # cs \<Rightarrow>
          if c = Ch (CHR 0x22)
          then (case json_string cs of None \<Rightarrow> None | Some (x, r) \<Rightarrow> Some (JStr x, r))
          else if c = Ch CHR ''[''
          then (case dropWhile is_json_space cs of
                  [] \<Rightarrow> None
                | d # r \<Rightarrow> if d = Ch CHR '']'' then Some (JList [], r) else json_elements n [] (d # r))
          else if c = Ch CHR ''{''
          then (case dropWhile is_json_space cs of
                  [] \<Rightarrow> None
                | d # r \<Rightarrow> if d = Ch CHR ''}'' then Some (JDict [], r) else json_members n [] (d # r))
          else (case match_lit ''null'' s of
                  Some r \<Rightarrow> Some (JNull, r)
                | None \<Rightarrow>
                    (case match_lit ''true'' s of
                       Some r \<Rightarrow> Some (JBool True, r)
                     | None \<Rightarrow>
                         (case match_lit ''false'' s of
                            Some r \<Rightarrow> Some (JBool False, r)
                          | None \<Rightarrow>
                              (case json_number s of
                                 None \<Rightarrow> None
                               | Some (i, r) \<Rightarrow> Some (JInt i, r))))))"
| "json_elements 0 acc s = None"
| "json_elements (Suc n) acc s =
     (case json_value n s of
        None \<Rightarrow> None
      | Some (v, r) \<Rightarrow>
          (case dropWhile is_json_space r of
             [] \<Rightarrow> None
           | d # r' \<Rightarrow>
               if d = Ch CHR '']'' then Some (JList (acc @ [v]), r')
               else if d = Ch CHR '','' then json_elements n (acc @ [v]) (dropWhile is_json_space r')
               else None))"
| "json_members 0 acc s = None"
| "json_members (Suc n) acc s =
     (case s of
        [] \<Rightarrow> None
      | q # s' \<Rightarrow>
          if q \<noteq> Ch (CHR 0x22) then None
          else (case json_string s' of
                  None \<Rightarrow> None
                | Some (k, r) \<Rightarrow>
                    (case dropWhile is_json_space r of
                       [] \<Rightarrow> None
                     | d # r' \<Rightarrow>
                         if d \<noteq> Ch CHR '':'' then None
                         else (case json_value n (dropWhile is_json_space r') of
                                 None \<Rightarrow> None
                               | Some (v, r'') \<Rightarrow>
                                   (case dropWhile is_json_space r'' of
                                      [] \<Rightarrow> None
                                    | e # t \<Rightarrow>
                                        if e = Ch CHR ''}''
                                        then Some (JDict (AList.update k v acc), t)
                                        else if e = Ch CHR '',''
                                        then json_members n (AList.update k v acc)
                                               (dropWhile is_json_space t)
                                        else None)))))"

definition json_loads :: json_loads where
  "json_loads s =
     (case json_value (Suc (length s)) (dropWhile is_json_space s) of
        None \<Rightarrow> None
      | Some (v, r) \<Rightarrow> if dropWhile is_json_space r = [] then Some v else None)"

section \<open>The generation path\<close>











section \<open>The extractor's attempts, as the specification lists them\<close>




section \<open>Normal forms of sanitized text\<close>

abbreviation collapse :: "pychar option \<Rightarrow> pystr \<Rightarrow> pystr" where
  \<comment> \<open>\<open>re.sub(r"\s+", " ", s)\<close>, from a position\<close>
  "collapse prev s \<equiv> re_sub ws_pattern (\<lambda>_. [Ch CHR '' '']) prev s"

abbreviation commas :: "pychar option \<Rightarrow> pystr \<Rightarrow> pystr" where
  \<comment> \<open>\<open>re.sub(r"\s*,\s*", ", ", s)\<close>, from a position\<close>
  "commas prev s \<equiv> re_sub comma_pattern (\<lambda>_. [Ch CHR '','', Ch CHR '' '']) prev s"

fun single_spaced :: "pystr \<Rightarrow> bool" where
  \<comment> \<open>every white space character is a space, and none follows another\<close>
  "single_spaced [] = True"
| "single_spaced (c # cs) =
     ((if is_space c then c = Ch CHR '' '' \<and> (cs = [] \<or> \<not> is_space (hd cs)) else True)
      \<and> single_spaced cs)"

fun comma_spaced :: "pystr \<Rightarrow> bool" where
  \<comment> \<open>single-spaced text in which no space stands before a comma read from the left, and
      every comma but a last one is followed by one space\<close>
  "comma_spaced [] = True"
| "comma_spaced (c # cs) =
     (if c = Ch CHR '','' then
        (case cs of
           [] \<Rightarrow> True
         | d # ds \<Rightarrow> d = Ch CHR '' '' \<and> (ds = [] \<or> \<not> is_space (hd ds)) \<and> comma_spaced ds)
      else if is_space c then
        c = Ch CHR '' '' \<and> (cs = [] \<or> (\<not> is_space (hd cs) \<and> hd cs \<noteq> Ch CHR '','')) \<and> comma_spaced cs
      else comma_spaced cs)"

section \<open>Properties of the text sanitizer\<close>

lemma set_py_strip: "set (py_strip s) \<subseteq> set s"
proof -
  have "set (dropWhile is_space (rev (dropWhile is_space s))) \<subseteq> set (rev (dropWhile is_space s))"
    by (rule subsetI) (rule set_dropWhileD)
  also have "\<dots> \<subseteq> set s"
    using set_dropWhileD[of _ is_space s] by auto
  finally show ?thesis by (simp add: py_strip_def)
qed

lemma set_re_sub: "set (re_sub m f prev s) \<subseteq> set s \<union> (\<Union>x. set (f x))"
proof (induction m f prev s rule: re_sub.induct)
  case (1 m f prev)
  then show ?case by (simp add: re_sub.simps)
next
  case (2 m f prev c cs)
  show ?case
  proof (cases "m prev (c # cs)")
    case None
    with 2 show ?thesis by (auto simp: re_sub.simps)
  next
    case (Some r)
    show ?thesis
    proof (cases "length r \<le> length cs")
      case True
      define k where "k = Suc (length cs) - length r"
      have ih: "set (re_sub m f (Some ((c # cs) ! (k - 1))) (drop k (c # cs)))
          \<subseteq> set (drop k (c # cs)) \<union> (\<Union>x. set (f x))"
        using 2(2)[OF Some True k_def] .
      have "set (drop k (c # cs)) \<subseteq> set (c # cs)" by (rule set_drop_subset)
      with ih Some True show ?thesis
        unfolding re_sub.simps k_def[symmetric] by (auto simp: Let_def k_def[symmetric])
    next
      case False
      with 2(3)[OF Some] Some show ?thesis by (auto simp: re_sub.simps)
    qed
  qed
qed

lemma suffix_dropWhile_Cons: "dropWhile P s = c # r \<Longrightarrow> suffix r s"
  by (metis suffix_dropWhile suffix_ConsD)

lemma suffix_match_marker: "match_marker s = Some r \<Longrightarrow> suffix r s"
proof -
  assume a: "match_marker s = Some r"
  then obtain c t where t: "dropWhile is_space s = c # t"
    by (auto simp: match_marker_def split: list.splits)
  have st: "suffix t s" using t by (rule suffix_dropWhile_Cons)
  show ?thesis
  proof (cases "is_digit c")
    case True
    with a t obtain d r' where d: "dropWhile is_digit t = d # r'" and r: "r = dropWhile is_space r'"
      by (auto simp: match_marker_def split: list.splits if_splits)
    have "suffix r' t" using d by (rule suffix_dropWhile_Cons)
    with st have "suffix r' s" using suffix_order.trans by blast
    with r show ?thesis using suffix_dropWhile suffix_order.trans by blast
  next
    case False
    with a t have "r = dropWhile is_space t"
      by (auto simp: match_marker_def split: list.splits if_splits)
    with st show ?thesis using suffix_dropWhile suffix_order.trans by blast
  qed
qed

lemma set_strip_marker: "set (strip_marker s) \<subseteq> set s"
  using suffix_match_marker set_mono_suffix
  by (fastforce simp: strip_marker_def split: option.splits)

lemma remove_json_signs_clean: "set (remove_json_signs s) \<inter> set json_signs = {}"
  by (auto simp: remove_json_signs_def)

lemma set_clean_text:
  "set (clean_text s) \<subseteq> set (remove_json_signs (py_strip s)) \<union> {Ch CHR '','', Ch CHR '' ''}"
proof -
  define a where "a = remove_json_signs (py_strip s)"
  define b where "b = re_sub label_pattern (\<lambda>_. []) None a"
  define c where "c = strip_marker b"
  define d where "d = re_sub ws_pattern (\<lambda>_. str '' '') None c"
  define e where "e = re_sub comma_pattern (\<lambda>_. str '', '') None d"
  have ct: "clean_text s = py_strip e"
    by (simp add: clean_text_def Let_def a_def b_def c_def d_def e_def)
  have "set b \<subseteq> set a"
    using set_re_sub[of label_pattern "\<lambda>_. []" None a] by (simp add: b_def)
  moreover have "set c \<subseteq> set b" by (simp add: c_def set_strip_marker)
  moreover have "set d \<subseteq> set c \<union> {Ch CHR '' ''}"
    using set_re_sub[of ws_pattern "\<lambda>_. str '' ''" None c] by (simp add: d_def)
  moreover have "set e \<subseteq> set d \<union> {Ch CHR '','', Ch CHR '' ''}"
    using set_re_sub[of comma_pattern "\<lambda>_. str '', ''" None d] by (simp add: e_def)
  moreover have "set (py_strip e) \<subseteq> set e" by (rule set_py_strip)
  ultimately show ?thesis unfolding ct a_def by blast
qed

text \<open>
  Claim C3. For every input string, the result of the text sanitizer contains none of
  the characters \<open>{\<close>, \<open>}\<close>, \<open>[\<close>, \<open>]\<close> and the double quote.
\<close>

theorem clean_text_no_json_signs:
  "set (clean_text s) \<inter> {Ch CHR ''{'', Ch CHR ''}'', Ch CHR ''['', Ch CHR '']'', Ch (CHR 0x22)} = {}"
proof -
  have "set (remove_json_signs (py_strip s)) \<inter> set json_signs = {}"
    by (rule remove_json_signs_clean)
  with set_clean_text[of s] show ?thesis by (auto simp: json_signs_def)
qed

section \<open>Stripping and title case\<close>

lemma last_dropWhile: "dropWhile P xs \<noteq> [] \<Longrightarrow> last (dropWhile P xs) = last xs"
proof -
  assume a: "dropWhile P xs \<noteq> []"
  have e: "dropWhile P xs = drop (length (takeWhile P xs)) xs" by (rule dropWhile_eq_drop)
  with a have "length (takeWhile P xs) < length xs" by auto
  then show ?thesis unfolding e by (rule last_drop)
qed

lemma py_strip_ends:
  "py_strip s \<noteq> [] \<Longrightarrow> \<not> is_space (hd (py_strip s)) \<and> \<not> is_space (last (py_strip s))"
proof -
  assume a: "py_strip s \<noteq> []"
  define t where "t = dropWhile is_space s"
  define u where "u = dropWhile is_space (rev t)"
  have ps: "py_strip s = rev u" by (simp add: py_strip_def t_def u_def)
  with a have u: "u \<noteq> []" by simp
  then have rt: "rev t \<noteq> []" unfolding u_def by auto
  then have tn: "t \<noteq> []" by simp
  have "\<not> is_space (hd u)" using u unfolding u_def by (rule hd_dropWhile)
  then have l: "\<not> is_space (last (rev u))" using u by (simp add: last_rev)
  have "last u = last (rev t)" using u unfolding u_def by (rule last_dropWhile)
  also have "\<dots> = hd t" using tn by (simp add: last_rev)
  finally have "hd (rev u) = hd t" using u by (simp add: hd_rev)
  moreover have "\<not> is_space (hd t)" using tn unfolding t_def by (rule hd_dropWhile)
  ultimately show ?thesis using l ps by simp
qed

lemma py_strip_fixed:
  "s = [] \<or> (\<not> is_space (hd s) \<and> \<not> is_space (last s)) \<Longrightarrow> py_strip s = s"
proof (cases s)
  case Nil
  then show ?thesis by (simp add: py_strip_def)
next
  case (Cons c cs)
  assume "s = [] \<or> (\<not> is_space (hd s) \<and> \<not> is_space (last s))"
  with Cons have h: "\<not> is_space c" and l: "\<not> is_space (last s)" by simp_all
  have d: "dropWhile is_space s = s" using Cons h by simp
  obtain x xs where r: "rev s = x # xs" using Cons by (cases "rev s") auto
  then have "x = last s" using Cons by (metis hd_rev list.sel(1) list.distinct(1))
  with l have "dropWhile is_space (x # xs) = x # xs" by simp
  then have "dropWhile is_space (rev s) = rev s" unfolding r .
  with d show ?thesis by (simp add: py_strip_def)
qed

lemma py_strip_idem: "py_strip (py_strip s) = py_strip s"
  using py_strip_ends[of s] py_strip_fixed[of "py_strip s"] by blast

lemma py_strip_nonempty: "\<not> is_space c \<Longrightarrow> py_strip (c # cs) \<noteq> []"
proof -
  assume h: "\<not> is_space c"
  then have "dropWhile is_space (c # cs) = c # cs" by simp
  moreover have "dropWhile is_space (rev (c # cs)) \<noteq> []"
    using h by (simp add: dropWhile_append)
  ultimately show ?thesis by (simp add: py_strip_def)
qed








section \<open>Idempotence of the text sanitizer\<close>

lemma suffix_drop_length: "suffix r s \<Longrightarrow> drop (length s - length r) s = r"
  by (auto simp: suffix_def)

lemma re_sub_nomatch:
  "m prev (c # cs) = None \<Longrightarrow> re_sub m f prev (c # cs) = c # re_sub m f (Some c) cs"
  by (simp add: re_sub.simps)

lemma re_sub_match:
  assumes "m prev (c # cs) = Some r" and "suffix r (c # cs)" and "r \<noteq> c # cs"
  shows "\<exists>x p. re_sub m f prev (c # cs) = f x @ re_sub m f p r"
proof -
  from assms(2,3) have l: "length r \<le> length cs"
    by (metis suffix_Cons suffix_length_le)
  have "drop (Suc (length cs) - length r) (c # cs) = r"
    using suffix_drop_length[OF assms(2)] by simp
  with assms(1) l show ?thesis
    by (auto simp: Let_def re_sub.simps)
qed

lemma re_sub_Nil: "re_sub m f prev [] = []"
  by (simp add: re_sub.simps)

lemma collapse_space:
  "is_space c \<Longrightarrow> \<exists>p. collapse prev (c # cs) = Ch CHR '' '' # collapse p (dropWhile is_space cs)"
proof -
  assume a: "is_space c"
  have m: "ws_pattern prev (c # cs) = Some (dropWhile is_space cs)"
    using a by (simp add: ws_pattern_def)
  have s: "suffix (dropWhile is_space cs) (c # cs)"
    by (simp add: suffix_ConsI suffix_dropWhile)
  have n: "dropWhile is_space cs \<noteq> c # cs"
    by (metis length_dropWhile_le impossible_Cons)
  from re_sub_match[where m = ws_pattern and f = "\<lambda>_. [Ch CHR '' '']", OF m s n]
  show ?thesis by simp
qed

lemma collapse_other: "\<not> is_space c \<Longrightarrow> collapse prev (c # cs) = c # collapse (Some c) cs"
  by (rule re_sub_nomatch) (simp add: ws_pattern_def)

lemma collapse_hd:
  "s = [] \<or> \<not> is_space (hd s) \<Longrightarrow> collapse prev s = [] \<or> \<not> is_space (hd (collapse prev s))"
  by (cases s) (simp_all add: collapse_other re_sub_Nil)

lemma single_spaced_collapse: "single_spaced (collapse prev s)"
proof (induction s arbitrary: prev rule: length_induct)
  case (1 s)
  show ?case
  proof (cases s)
    case Nil
    then show ?thesis by (simp add: re_sub_Nil)
  next
    case (Cons c cs)
    show ?thesis
    proof (cases "is_space c")
      case True
      from collapse_space[OF True, of prev cs] obtain p where
        e: "collapse prev (c # cs) = Ch CHR '' '' # collapse p (dropWhile is_space cs)" by blast
      have "length (dropWhile is_space cs) < length s"
        using Cons length_dropWhile_le[of is_space cs] by simp
      with 1 have "single_spaced (collapse p (dropWhile is_space cs))" by blast
      moreover have "dropWhile is_space cs = [] \<or> \<not> is_space (hd (dropWhile is_space cs))"
        using hd_dropWhile[of is_space cs] by blast
      from collapse_hd[OF this, of p]
      have "collapse p (dropWhile is_space cs) = []
          \<or> \<not> is_space (hd (collapse p (dropWhile is_space cs)))" .
      ultimately show ?thesis unfolding Cons e by simp
    next
      case False
      with 1 Cons show ?thesis by (simp add: collapse_other)
    qed
  qed
qed

lemma collapse_fixed: "single_spaced s \<Longrightarrow> collapse prev s = s"
proof (induction s arbitrary: prev)
  case Nil
  then show ?case by (simp add: re_sub_Nil)
next
  case (Cons c cs)
  show ?case
  proof (cases "is_space c")
    case True
    with Cons.prems have c: "c = Ch CHR '' ''" and n: "cs = [] \<or> \<not> is_space (hd cs)"
      and r: "single_spaced cs" by simp_all
    from n have d: "dropWhile is_space cs = cs" by (cases cs) auto
    from collapse_space[OF True, of prev cs] obtain p where
      "collapse prev (c # cs) = Ch CHR '' '' # collapse p (dropWhile is_space cs)" by blast
    with d c Cons.IH[OF r] show ?thesis by simp
  next
    case False
    with Cons show ?thesis by (simp add: collapse_other)
  qed
qed

lemma single_spaced_dropWhile: "single_spaced s \<Longrightarrow> single_spaced (dropWhile P s)"
  by (induction s) auto

lemma commas_match:
  assumes "dropWhile is_space (c # cs) = Ch CHR '','' # r"
  shows "\<exists>p. commas prev (c # cs) = Ch CHR '','' # Ch CHR '' '' # commas p (dropWhile is_space r)"
proof -
  have m: "comma_pattern prev (c # cs) = Some (dropWhile is_space r)"
    using assms by (simp add: comma_pattern_def)
  have s1: "suffix r (c # cs)" using assms by (rule suffix_dropWhile_Cons)
  then have s: "suffix (dropWhile is_space r) (c # cs)"
    using suffix_dropWhile suffix_order.trans by blast
  have "length r < length (c # cs)"
    using length_dropWhile_le[of is_space "c # cs"] unfolding assms by simp
  then have n: "dropWhile is_space r \<noteq> c # cs"
    using length_dropWhile_le[of is_space r] by (metis leD)
  from re_sub_match[where m = comma_pattern and f = "\<lambda>_. [Ch CHR '','', Ch CHR '' '']", OF m s n]
  show ?thesis by simp
qed

lemma commas_other:
  "comma_pattern prev (c # cs) = None \<Longrightarrow> commas prev (c # cs) = c # commas (Some c) cs"
  by (rule re_sub_nomatch)

lemma comma_pattern_plain:
  "\<not> is_space c \<Longrightarrow> c \<noteq> Ch CHR '','' \<Longrightarrow> comma_pattern prev (c # cs) = None"
  by (simp add: comma_pattern_def)

lemma not_space_comma: "\<not> is_space (Ch CHR '','')"
  by (simp add: is_space_def)

lemma commas_hd:
  "s = [] \<or> \<not> is_space (hd s) \<Longrightarrow> commas prev s = [] \<or> \<not> is_space (hd (commas prev s))"
proof (cases s)
  case Nil
  then show ?thesis by (simp add: re_sub_Nil)
next
  case (Cons c cs)
  assume "s = [] \<or> \<not> is_space (hd s)"
  with Cons have ns: "\<not> is_space c" by simp
  show ?thesis
  proof (cases "c = Ch CHR '',''")
    case True
    then have "dropWhile is_space (c # cs) = Ch CHR '','' # cs" using ns by simp
    from commas_match[OF this, of prev] show ?thesis
      unfolding Cons using not_space_comma by auto
  next
    case False
    from commas_other[OF comma_pattern_plain[OF ns False]] ns show ?thesis
      unfolding Cons by simp
  qed
qed

lemma commas_hd_plain:
  "s = [] \<or> (\<not> is_space (hd s) \<and> hd s \<noteq> Ch CHR '','') \<Longrightarrow>
   commas prev s = [] \<or> (\<not> is_space (hd (commas prev s)) \<and> hd (commas prev s) \<noteq> Ch CHR '','')"
proof (cases s)
  case Nil
  then show ?thesis by (simp add: re_sub_Nil)
next
  case (Cons c cs)
  assume "s = [] \<or> (\<not> is_space (hd s) \<and> hd s \<noteq> Ch CHR '','')"
  with Cons have ns: "\<not> is_space c" and nc: "c \<noteq> Ch CHR '',''" by simp_all
  from commas_other[OF comma_pattern_plain[OF ns nc]] ns nc show ?thesis
    unfolding Cons by simp
qed

lemma comma_spaced_commas: "single_spaced s \<Longrightarrow> comma_spaced (commas prev s)"
proof (induction s arbitrary: prev rule: length_induct)
  case (1 s)
  show ?case
  proof (cases s)
    case Nil
    then show ?thesis by (simp add: re_sub_Nil)
  next
    case (Cons c cs)
    show ?thesis
    proof (cases "comma_pattern prev (c # cs)")
      case None
      have r: "comma_spaced (commas (Some c) cs)"
        using 1 Cons by simp
      have out: "commas prev (c # cs) = c # commas (Some c) cs"
        using None by (rule commas_other)
      have nc: "c \<noteq> Ch CHR '',''"
        using None not_space_comma by (auto simp: comma_pattern_def)
      show ?thesis
      proof (cases "is_space c")
        case True
        with 1(2) Cons have c: "c = Ch CHR '' ''" and n: "cs = [] \<or> \<not> is_space (hd cs)"
          by simp_all
        from n have d: "dropWhile is_space (c # cs) = cs" using True by (cases cs) auto
        with None have "cs = [] \<or> hd cs \<noteq> Ch CHR '',''"
          by (cases cs) (auto simp: comma_pattern_def split: if_splits)
        with n have "cs = [] \<or> (\<not> is_space (hd cs) \<and> hd cs \<noteq> Ch CHR '','')" by blast
        from commas_hd_plain[OF this, of "Some c"] r c True nc show ?thesis
          unfolding Cons out by simp
      next
        case False
        with r nc show ?thesis unfolding Cons out by simp
      qed
    next
      case (Some r0)
      then obtain r where d: "dropWhile is_space (c # cs) = Ch CHR '','' # r"
        by (auto simp: comma_pattern_def split: list.splits if_splits)
      from commas_match[OF d, of prev] obtain p where
        out: "commas prev (c # cs) = Ch CHR '','' # Ch CHR '' '' # commas p (dropWhile is_space r)"
        by blast
      have "suffix r (c # cs)" using d by (rule suffix_dropWhile_Cons)
      then have l: "length (dropWhile is_space r) < length s"
        using Cons length_dropWhile_le[of is_space r] length_dropWhile_le[of is_space "c # cs"] d
        by (metis le_imp_less_Suc length_Cons order_trans not_less_eq_eq)
      have "single_spaced (dropWhile is_space (c # cs))"
        using 1(2) Cons single_spaced_dropWhile by blast
      then have "single_spaced r" unfolding d by simp
      then have "single_spaced (dropWhile is_space r)" by (rule single_spaced_dropWhile)
      with 1(1) l have cs: "comma_spaced (commas p (dropWhile is_space r))" by blast
      have "dropWhile is_space r = [] \<or> \<not> is_space (hd (dropWhile is_space r))"
        using hd_dropWhile[of is_space r] by blast
      from commas_hd[OF this, of p] cs show ?thesis
        unfolding Cons out by simp
    qed
  qed
qed

lemma commas_fixed:
  "comma_spaced s \<Longrightarrow> commas prev s = s \<or> commas prev s = s @ [Ch CHR '' '']"
proof (induction s arbitrary: prev rule: comma_spaced.induct)
  case 1
  then show ?case by (simp add: re_sub_Nil)
next
  case (2 c cs)
  show ?case
  proof (cases "c = Ch CHR '',''")
    case True
    show ?thesis
    proof (cases cs)
      case Nil
      have "dropWhile is_space (c # cs) = Ch CHR '','' # []"
        using True Nil not_space_comma by simp
      from commas_match[OF this, of prev] show ?thesis
        using True Nil by (auto simp: re_sub_Nil)
    next
      case (Cons d ds)
      with 2(4) True have d: "d = Ch CHR '' ''" and n: "ds = [] \<or> \<not> is_space (hd ds)"
        and r: "comma_spaced ds" by simp_all
      have sp: "is_space (Ch CHR '' '')" by (simp add: is_space_def)
      from n have dd: "dropWhile is_space ds = ds" by (cases ds) auto
      have "dropWhile is_space (c # cs) = Ch CHR '','' # cs"
        using True not_space_comma by simp
      from commas_match[OF this, of prev] obtain p where
        "commas prev (c # cs) = Ch CHR '','' # Ch CHR '' '' # commas p (dropWhile is_space cs)"
        by blast
      then have out: "commas prev (c # cs) = Ch CHR '','' # Ch CHR '' '' # commas p ds"
        unfolding Cons d using sp dd by simp
      from 2(1)[OF True Cons r, of p] show ?thesis
        unfolding out using True Cons d by auto
    qed
  next
    case False
    show ?thesis
    proof (cases "is_space c")
      case True
      with 2(4) False have c: "c = Ch CHR '' ''"
        and n: "cs = [] \<or> (\<not> is_space (hd cs) \<and> hd cs \<noteq> Ch CHR '','')"
        and r: "comma_spaced cs" by simp_all
      from n have "dropWhile is_space (c # cs) = cs" using True by (cases cs) auto
      with n have "comma_pattern prev (c # cs) = None"
        by (cases cs) (auto simp: comma_pattern_def)
      from commas_other[OF this] 2(2)[OF False True r, of "Some c"] show ?thesis by auto
    next
      case ns: False
      with 2(4) False have r: "comma_spaced cs" by simp
      from commas_other[OF comma_pattern_plain[OF ns False], of prev cs]
        2(3)[OF False ns r, of "Some c"]
      show ?thesis by auto
    qed
  qed
qed

lemma comma_spaced_single: "comma_spaced s \<Longrightarrow> single_spaced s"
proof (induction s rule: comma_spaced.induct)
  case 1
  then show ?case by simp
next
  case (2 c cs)
  show ?case
  proof (cases "c = Ch CHR '',''")
    case True
    show ?thesis
    proof (cases cs)
      case Nil
      with True not_space_comma show ?thesis by simp
    next
      case (Cons d ds)
      with 2(4) True have d: "d = Ch CHR '' ''" and n: "ds = [] \<or> \<not> is_space (hd ds)"
        and r: "comma_spaced ds" by simp_all
      from 2(1)[OF True Cons r] d n True not_space_comma show ?thesis
        unfolding Cons by simp
    qed
  next
    case False
    show ?thesis
    proof (cases "is_space c")
      case True
      with 2(4) False have c: "c = Ch CHR '' ''"
        and n: "cs = [] \<or> (\<not> is_space (hd cs) \<and> hd cs \<noteq> Ch CHR '','')"
        and r: "comma_spaced cs" by simp_all
      from 2(2)[OF False True r] c n show ?thesis by auto
    next
      case ns: False
      with 2(4) False have r: "comma_spaced cs" by simp
      from 2(3)[OF False ns r] ns show ?thesis by simp
    qed
  qed
qed

lemma comma_spaced_dropWhile: "comma_spaced s \<Longrightarrow> comma_spaced (dropWhile is_space s)"
proof (induction s)
  case Nil
  then show ?case by simp
next
  case (Cons c cs)
  show ?case
  proof (cases "is_space c")
    case True
    then have "c \<noteq> Ch CHR '',''" using not_space_comma by auto
    with Cons True show ?thesis by simp
  next
    case False
    with Cons show ?thesis by simp
  qed
qed

lemma comma_spaced_snoc: "comma_spaced (s @ [c]) \<Longrightarrow> is_space c \<Longrightarrow> comma_spaced s"
proof (induction s rule: comma_spaced.induct)
  case 1
  then show ?case by simp
next
  case (2 x xs)
  show ?case
  proof (cases "x = Ch CHR '',''")
    case True
    show ?thesis
    proof (cases xs)
      case Nil
      with True show ?thesis by simp
    next
      case (Cons d ds)
      with 2(4) True have d: "d = Ch CHR '' ''"
        and n: "\<not> is_space (hd (ds @ [c]))"
        and r: "comma_spaced (ds @ [c])" by simp_all
      from n 2(5) have dn: "ds \<noteq> []" by (cases ds) auto
      then have "\<not> is_space (hd ds)" using n by simp
      with 2(1)[OF True Cons r 2(5)] d True Cons show ?thesis by simp
    qed
  next
    case False
    show ?thesis
    proof (cases "is_space x")
      case True
      with 2(4) False have x: "x = Ch CHR '' ''"
        and n: "\<not> is_space (hd (xs @ [c])) \<and> hd (xs @ [c]) \<noteq> Ch CHR '',''"
        and r: "comma_spaced (xs @ [c])" by simp_all
      from n 2(5) have "xs \<noteq> []" by (cases xs) auto
      then have "\<not> is_space (hd xs) \<and> hd xs \<noteq> Ch CHR '',''" using n by simp
      with 2(2)[OF False True r 2(5)] x False True show ?thesis by simp
    next
      case ns: False
      with 2(4) False have r: "comma_spaced (xs @ [c])" by simp
      from 2(3)[OF False ns r 2(5)] False ns show ?thesis by simp
    qed
  qed
qed

lemma comma_spaced_rstrip: "comma_spaced (rev t) \<Longrightarrow> comma_spaced (rev (dropWhile is_space t))"
proof (induction t)
  case Nil
  then show ?case by simp
next
  case (Cons c cs)
  show ?case
  proof (cases "is_space c")
    case True
    from Cons.prems have "comma_spaced (rev cs @ [c])" by simp
    from comma_spaced_snoc[OF this True] Cons.IH True show ?thesis by simp
  next
    case False
    with Cons.prems show ?thesis by simp
  qed
qed

lemma comma_spaced_strip: "comma_spaced s \<Longrightarrow> comma_spaced (py_strip s)"
proof -
  assume "comma_spaced s"
  then have "comma_spaced (rev (rev (dropWhile is_space s)))"
    by (simp add: comma_spaced_dropWhile)
  then show ?thesis unfolding py_strip_def by (rule comma_spaced_rstrip)
qed

lemma py_strip_snoc_space: "is_space c \<Longrightarrow> py_strip (s @ [c]) = py_strip s"
proof (cases "\<forall>x \<in> set s. is_space x")
  case True
  assume c: "is_space c"
  from True have 1: "dropWhile is_space s = []" by (induction s) auto
  from True c have "\<forall>x \<in> set (s @ [c]). is_space x" by simp
  then have 2: "dropWhile is_space (s @ [c]) = []" by (induction "s @ [c]" arbitrary: s) auto
  show ?thesis unfolding py_strip_def 1 2 by simp
next
  case False
  assume c: "is_space c"
  from False obtain x where "x \<in> set s" and "\<not> is_space x" by blast
  then have "dropWhile is_space (s @ [c]) = dropWhile is_space s @ [c]"
    by (rule dropWhile_append1)
  with c show ?thesis by (simp add: py_strip_def)
qed

lemma remove_json_signs_fixed: "set s \<inter> set json_signs = {} \<Longrightarrow> remove_json_signs s = s"
  unfolding remove_json_signs_def by (rule filter_True) auto

lemma clean_text_json_free: "set (clean_text s) \<inter> set json_signs = {}"
  using set_clean_text[of s] remove_json_signs_clean[of "py_strip s"]
  by (auto simp: json_signs_def)

lemma clean_text_comma_spaced: "comma_spaced (clean_text s)"
  unfolding clean_text_def Let_def
  by (simp add: comma_spaced_strip comma_spaced_commas single_spaced_collapse)

lemma clean_text_stripped: "py_strip (clean_text s) = clean_text s"
  unfolding clean_text_def Let_def by (rule py_strip_idem)

text \<open>
  Claim C2, counterexample. The sanitizer strips one leading marker per application:
  \<open>1. 2. Mix\<close> becomes \<open>2. Mix\<close>, and that becomes \<open>Mix\<close>.
\<close>

theorem clean_text_not_idempotent:
  "clean_text (str ''1. 2. Mix'') = str ''2. Mix''
   \<and> clean_text (str ''2. Mix'') = str ''Mix''
   \<and> clean_text (clean_text (str ''1. 2. Mix'')) \<noteq> clean_text (str ''1. 2. Mix'')"
  by code_simp

text \<open>
  Claim C2, as amended. For every input string whose sanitized text contains no field
  label followed by a colon and does not start with a list or number marker, sanitizing
  the sanitized text again returns it unchanged.
\<close>

theorem clean_text_idempotent_plain:
  assumes "re_sub label_pattern (\<lambda>_. []) None (clean_text s) = clean_text s"
    and "strip_marker (clean_text s) = clean_text s"
  shows "clean_text (clean_text s) = clean_text s"
proof -
  let ?y = "clean_text s"
  have a: "py_strip ?y = ?y" by (rule clean_text_stripped)
  have b: "remove_json_signs ?y = ?y"
    by (rule remove_json_signs_fixed) (rule clean_text_json_free)
  have cs: "comma_spaced ?y" by (rule clean_text_comma_spaced)
  have e: "collapse None ?y = ?y"
    by (rule collapse_fixed) (rule comma_spaced_single[OF cs])
  from commas_fixed[OF cs, of None]
  have f: "py_strip (commas None ?y) = ?y"
    using a py_strip_snoc_space[of "Ch CHR '' ''" ?y] by (auto simp: is_space_def)
  have "clean_text ?y = py_strip (commas None (collapse None (strip_marker
      (re_sub label_pattern (\<lambda>_. []) None (remove_json_signs (py_strip ?y))))))"
    by (simp add: clean_text_def Let_def)
  also have "\<dots> = ?y" unfolding a b assms e f ..
  finally show ?thesis .
qed

text \<open>
  Claim C2, witness: \<open>- Steps: Mix , {stir}\<close> is sanitized to \<open>Mix, stir\<close>, which has
  neither a label nor a marker and is sanitized to itself.
\<close>

theorem clean_text_idempotent_plain_witness:
  "re_sub label_pattern (\<lambda>_. []) None (clean_text (str ''- Steps: Mix , {stir}''))
     = clean_text (str ''- Steps: Mix , {stir}'')
   \<and> strip_marker (clean_text (str ''- Steps: Mix , {stir}''))
     = clean_text (str ''- Steps: Mix , {stir}'')
   \<and> clean_text (str ''- Steps: Mix , {stir}'') = str ''Mix, stir''
   \<and> clean_text (clean_text (str ''- Steps: Mix , {stir}''))
     = clean_text (str ''- Steps: Mix , {stir}'')"
proof -
  have h1: "re_sub label_pattern (\<lambda>_. []) None (clean_text (str ''- Steps: Mix , {stir}''))
     = clean_text (str ''- Steps: Mix , {stir}'')"
    by code_simp
  have h2: "strip_marker (clean_text (str ''- Steps: Mix , {stir}''))
     = clean_text (str ''- Steps: Mix , {stir}'')"
    by code_simp
  have v: "clean_text (str ''- Steps: Mix , {stir}'') = str ''Mix, stir''"
    by code_simp
  from clean_text_idempotent_plain[OF h1 h2] h1 h2 v show ?thesis by blast
qed

section \<open>Title uniqueness\<close>








text \<open>
  Claim C5, on the failing input. A session finalizes the titles \<open>Soup\<close>, \<open>Soup\<close> and
  \<open>Soup (v2)\<close>, each passed once through the registry: the second and the third recipe
  are both displayed as \<open>Soup (v2)\<close>.
\<close>

theorem session_titles_repeat:
  "session_titles Map.empty [str ''Soup'', str ''Soup'', str ''Soup (v2)'']
     = [str ''Soup'', str ''Soup (v2)'', str ''Soup (v2)'']"
  by code_simp

section \<open>The record finalizer\<close>

lemma map_of_update_other: "k \<noteq> k' \<Longrightarrow> map_of (AList.update k' v al) k = map_of al k"
  by (simp add: update_conv')

lemma py_dict_JDict: "py_dict (JDict d) = Inr d"
  by (cases d) (simp_all add: py_dict_def)

lemma sanitize_frame:
  assumes "sanitize_recipe_data data idea = Inr out" and "py_dict data = Inr d"
    and "k \<notin> {str ''title'', str ''description'', str ''servings'', str ''time_minutes'',
       str ''ingredients'', str ''steps''}"
  shows "map_of out k = map_of d k"
  using assms
  by (auto simp: sanitize_recipe_data_def Let_def map_of_update_other split: sum.splits)

text \<open>
  Claim C1, on the failing input. The draft has lists of scalars; the entries \<open>-\<close> and
  \<open>1.\<close> are not blank, so the filter keeps them, and they sanitize to the empty string,
  which stays in the lists of the record.
\<close>

theorem sanitize_keeps_empty_entries:
  "sanitize_recipe_data
     (JDict [(str ''title'', JStr (str ''Flatbread'')),
             (str ''ingredients'', JList [JStr (str ''Flour''), JStr (str ''-'')]),
             (str ''steps'', JList [JStr (str ''Mix''), JStr (str ''1.'')])])
     (str ''flatbread'')
   = Inr [(str ''title'', JStr (str ''Flatbread'')),
          (str ''ingredients'', JList [JStr (str ''Flour''), JStr []]),
          (str ''steps'', JList [JStr (str ''Mix''), JStr []]),
          (str ''description'',
             JStr (str ''Flatbread turned into a balanced, easy-to-cook recipe.'')),
          (str ''servings'', JInt 2),
          (str ''time_minutes'', JInt 20)]"
  by code_simp

text \<open>
  Claim C10. For every draft mapping on which the finalizer returns, every key other than
  \<open>title\<close>, \<open>description\<close>, \<open>servings\<close>, \<open>time_minutes\<close>, \<open>ingredients\<close> and \<open>steps\<close> is in the
  record exactly when it is in the draft, and with the draft's value.
\<close>

theorem sanitize_preserves_other_keys:
  assumes "sanitize_recipe_data (JDict d) idea = Inr out"
    and "k \<notin> {str ''title'', str ''description'', str ''servings'', str ''time_minutes'',
       str ''ingredients'', str ''steps''}"
  shows "map_of out k = map_of d k"
  using sanitize_frame[OF assms(1) py_dict_JDict assms(2)] .

text \<open>
  Claim C10, witness: a draft with the extra fields \<open>cuisine\<close> and \<open>rating\<close>.
\<close>

theorem sanitize_preserves_other_keys_witness:
  "sanitize_recipe_data
     (JDict [(str ''cuisine'', JStr (str ''Thai'')), (str ''title'', JStr (str ''Soup'')),
             (str ''rating'', JInt 5)])
     (str ''soup'')
   = Inr [(str ''cuisine'', JStr (str ''Thai'')), (str ''title'', JStr (str ''Soup'')),
          (str ''rating'', JInt 5),
          (str ''description'', JStr (str ''Soup turned into a balanced, easy-to-cook recipe.'')),
          (str ''servings'', JInt 2),
          (str ''time_minutes'', JInt 20),
          (str ''ingredients'', JList [JStr (str ''Salt''), JStr (str ''Pepper''), JStr (str ''Olive oil'')]),
          (str ''steps'', JList [JStr (str ''Combine ingredients and cook to taste.'')])]
   \<and> str ''cuisine'' \<notin> {str ''title'', str ''description'', str ''servings'', str ''time_minutes'',
       str ''ingredients'', str ''steps''}
   \<and> map_of [(str ''cuisine'', JStr (str ''Thai'')), (str ''title'', JStr (str ''Soup'')),
          (str ''rating'', JInt 5),
          (str ''description'', JStr (str ''Soup turned into a balanced, easy-to-cook recipe.'')),
          (str ''servings'', JInt 2),
          (str ''time_minutes'', JInt 20),
          (str ''ingredients'', JList [JStr (str ''Salt''), JStr (str ''Pepper''), JStr (str ''Olive oil'')]),
          (str ''steps'', JList [JStr (str ''Combine ingredients and cook to taste.'')])]
        (str ''cuisine'')
      = Some (JStr (str ''Thai''))"
proof -
  let ?d = "[(str ''cuisine'', JStr (str ''Thai'')), (str ''title'', JStr (str ''Soup'')),
             (str ''rating'', JInt 5)]"
  let ?out = "[(str ''cuisine'', JStr (str ''Thai'')), (str ''title'', JStr (str ''Soup'')),
          (str ''rating'', JInt 5),
          (str ''description'', JStr (str ''Soup turned into a balanced, easy-to-cook recipe.'')),
          (str ''servings'', JInt 2),
          (str ''time_minutes'', JInt 20),
          (str ''ingredients'', JList [JStr (str ''Salt''), JStr (str ''Pepper''), JStr (str ''Olive oil'')]),
          (str ''steps'', JList [JStr (str ''Combine ingredients and cook to taste.'')])]"
  have e: "sanitize_recipe_data (JDict ?d) (str ''soup'') = Inr ?out" by code_simp
  have n: "str ''cuisine'' \<notin> {str ''title'', str ''description'', str ''servings'',
      str ''time_minutes'', str ''ingredients'', str ''steps''}"
    by simp
  have "map_of ?out (str ''cuisine'') = map_of ?d (str ''cuisine'')"
    by (rule sanitize_preserves_other_keys[OF e n])
  then have "map_of ?out (str ''cuisine'') = Some (JStr (str ''Thai''))" by simp
  with e n show ?thesis by blast
qed

section \<open>The heuristic text extractor\<close>

text \<open>
  Claim C9, counterexample. For the idea \<open> soup\<close>, with a space in front, the title is
  \<open>Soup\<close>, which is not the idea in title case.
\<close>

theorem heuristic_title_trims_idea:
  "py_get (heuristic_from_text [] (str '' soup'')) ''title'' = JStr (str ''Soup'')
   \<and> py_title (str '' soup'') = str '' Soup''"
  by code_simp

text \<open>
  Claim C9, as amended. For every text and every idea, the extractor returns a record of
  the six fields: the title is the idea, trimmed of surrounding white space, in title
  case, or the default phrase when the trimmed idea is empty; servings are 2 and the time
  is 20 minutes; ingredients and steps are lists of strings with at least one entry, the
  fixed defaults when the text yields none.
\<close>

theorem heuristic_from_text_populated:
  "\<exists>ing steps.
     heuristic_from_text text idea =
       [(str ''title'',
           JStr (if py_strip idea = [] then default_title else py_title (py_strip idea))),
        (str ''description'', JStr (idea_description idea)),
        (str ''servings'', JInt 2),
        (str ''time_minutes'', JInt 20),
        (str ''ingredients'', JList (map JStr ing)),
        (str ''steps'', JList (map JStr steps))]
     \<and> ing \<noteq> [] \<and> steps \<noteq> []
     \<and> (heuristic_ingredients (normalize_bullets text) = [] \<longrightarrow> ing = default_ingredients)
     \<and> (heuristic_steps (normalize_bullets text) = [] \<longrightarrow> steps = default_steps)"
proof -
  define ing0 where "ing0 = heuristic_ingredients (normalize_bullets text)"
  define steps0 where "steps0 = heuristic_steps (normalize_bullets text)"
  define ing where "ing = (if ing0 = [] then default_ingredients else ing0)"
  define steps where "steps = (if steps0 = [] then default_steps else steps0)"
  have "heuristic_from_text text idea =
       [(str ''title'',
           JStr (if py_strip idea = [] then default_title else py_title (py_strip idea))),
        (str ''description'', JStr (idea_description idea)),
        (str ''servings'', JInt 2),
        (str ''time_minutes'', JInt 20),
        (str ''ingredients'', JList (map JStr ing)),
        (str ''steps'', JList (map JStr steps))]"
    by (simp add: heuristic_from_text_def Let_def idea_title_def ing_def steps_def ing0_def
        steps0_def)
  moreover have "ing \<noteq> []" by (simp add: ing_def default_ingredients_def)
  moreover have "steps \<noteq> []" by (simp add: steps_def default_steps_def)
  moreover have "ing0 = [] \<longrightarrow> ing = default_ingredients" by (simp add: ing_def)
  moreover have "steps0 = [] \<longrightarrow> steps = default_steps" by (simp add: steps_def)
  ultimately show ?thesis unfolding ing0_def steps0_def by blast
qed

text \<open>
  Claim C9, witness: no text at all and the idea \<open>spicy noodles\<close>. Nothing is found, and
  the record has the title \<open>Spicy Noodles\<close> and the default lists.
\<close>

theorem heuristic_from_text_populated_witness:
  "heuristic_ingredients (normalize_bullets []) = []
   \<and> heuristic_steps (normalize_bullets []) = []
   \<and> heuristic_from_text [] (str ''spicy noodles'') =
       [(str ''title'', JStr (str ''Spicy Noodles'')),
        (str ''description'',
           JStr (str ''Spicy noodles turned into a balanced, easy-to-cook recipe.'')),
        (str ''servings'', JInt 2),
        (str ''time_minutes'', JInt 20),
        (str ''ingredients'', JList [JStr (str ''Salt''), JStr (str ''Pepper''), JStr (str ''Olive oil'')]),
        (str ''steps'', JList [JStr (str ''Combine ingredients and cook to taste.'')])]"
proof -
  have a: "heuristic_ingredients (normalize_bullets []) = []" by code_simp
  have b: "heuristic_steps (normalize_bullets []) = []" by code_simp
  have t: "(if py_strip (str ''spicy noodles'') = [] then default_title
            else py_title (py_strip (str ''spicy noodles''))) = str ''Spicy Noodles''"
    by code_simp
  have d: "idea_description (str ''spicy noodles'')
      = str ''Spicy noodles turned into a balanced, easy-to-cook recipe.''"
    by code_simp
  from heuristic_from_text_populated[of "[]" "str ''spicy noodles''"] a b
  have "heuristic_from_text [] (str ''spicy noodles'') =
       [(str ''title'',
           JStr (if py_strip (str ''spicy noodles'') = [] then default_title
                 else py_title (py_strip (str ''spicy noodles'')))),
        (str ''description'', JStr (idea_description (str ''spicy noodles''))),
        (str ''servings'', JInt 2),
        (str ''time_minutes'', JInt 20),
        (str ''ingredients'', JList (map JStr default_ingredients)),
        (str ''steps'', JList (map JStr default_steps))]"
    by auto
  then show ?thesis
    unfolding t d using a b by (simp add: default_ingredients_def default_steps_def)
qed

section \<open>The JSON extractor and the repairer\<close>







text \<open>
  Claim C8. For the input \<open>{title: 'Soup', servings: 2, ingredients: ['Water'], steps:
  ['Boil'],}\<close> the repairer hands valid JSON to the parser and returns the parsed object,
  whose title is \<open>Soup\<close>.
\<close>

theorem repair_soup:
  "repair_text (str ''{title: 'Soup', servings: 2, ingredients: ['Water'], steps: ['Boil'],}'')
     = str ''{\"title\": \"Soup\", \"servings\": 2, \"ingredients\": [\"Water\"], \"steps\": [\"Boil\"]}''
   \<and> repair_json_like json_loads
         (str ''{title: 'Soup', servings: 2, ingredients: ['Water'], steps: ['Boil'],}'')
     = JDict [(str ''title'', JStr (str ''Soup'')), (str ''servings'', JInt 2),
              (str ''ingredients'', JList [JStr (str ''Water'')]),
              (str ''steps'', JList [JStr (str ''Boil'')])]
   \<and> py_get [(str ''title'', JStr (str ''Soup'')), (str ''servings'', JInt 2),
              (str ''ingredients'', JList [JStr (str ''Water'')]),
              (str ''steps'', JList [JStr (str ''Boil'')])] ''title''
     = JStr (str ''Soup'')"
  by code_simp

section \<open>The generation path\<close>












end
